theory Spec2Isabelle
  imports Main "HOL-Library.AList" "HOL-Library.Word"
begin

section \<open>Values held by the library\<close>

text \<open>
  The application (\<^verbatim>\<open>src/book.py\<close>) keeps \<^verbatim>\<open>st.session_state.library\<close>, a Python value
  that is either built by \<^verbatim>\<open>add_book\<close> or read by \<^verbatim>\<open>json.load\<close>. Such values are JSON
  trees. A dict is an association list in insertion order, which is the order Python dicts
  keep; \<^verbatim>\<open>json.load\<close> never yields a dict with a repeated key. An integer is Python's
  unbounded \<^verbatim>\<open>int\<close>; a float is an IEEE double, kept as its 64 bits. A string is the
  sequence of the bytes of its UTF-8 encoding: one string is a substring of another as
  sequences of characters exactly when it is as sequences of bytes.
\<close>

datatype json =
    JNull
  | JBool bool
  | JInt int
  | JFloat "64 word"
  | JStr string
  | JList "json list"
  | JDict "(string \<times> json) list"

text \<open>The exceptions that the modelled code can meet.\<close>

datatype py_error =
    AttributeError
  | KeyError
  | TypeError
  | FileNotFoundError
  | PermissionError
  | JSONDecodeError
  | UnicodeDecodeError
  | ValueError
  | RecursionError

text \<open>\<^verbatim>\<open>isinstance(x, dict)\<close>, \<^verbatim>\<open>isinstance(x, list)\<close>, \<^verbatim>\<open>isinstance(x, str)\<close>.\<close>

fun isinstance_dict :: "json \<Rightarrow> bool" where
  "isinstance_dict (JDict kvs) = True"
| "isinstance_dict v = False"


fun isinstance_str :: "json \<Rightarrow> bool" where
  "isinstance_str (JStr s) = True"
| "isinstance_str v = False"

text \<open>\<^verbatim>\<open>key in item\<close> and \<^verbatim>\<open>item[key] = v\<close> on a dict. Assigning to a key that is present
  keeps its position, a new key goes to the end.\<close>

definition key_in :: "string \<Rightarrow> (string \<times> json) list \<Rightarrow> bool" where
  "key_in key kvs = (map_of kvs key \<noteq> None)"

definition setitem :: "string \<Rightarrow> json \<Rightarrow> (string \<times> json) list \<Rightarrow> (string \<times> json) list" where
  "setitem key v kvs = AList.update key v kvs"

text \<open>\<^verbatim>\<open>x[key]\<close> with a string key: a dict without the key raises \<^verbatim>\<open>KeyError\<close>; a list, a
  string or a scalar raises \<^verbatim>\<open>TypeError\<close>.\<close>

fun getitem :: "json \<Rightarrow> string \<Rightarrow> py_error + json" where
  "getitem (JDict kvs) key = (case map_of kvs key of None \<Rightarrow> Inl KeyError | Some v \<Rightarrow> Inr v)"
| "getitem v key = Inl TypeError"

text \<open>Truth value of a Python object, as \<^verbatim>\<open>if x:\<close> tests it.\<close>

fun truthy :: "json \<Rightarrow> bool" where
  "truthy JNull = False"
| "truthy (JBool b) = b"
| "truthy (JInt i) = (i \<noteq> 0)"
| "truthy (JFloat bits) = (take_bit 63 bits \<noteq> 0)"
| "truthy (JStr s) = (s \<noteq> [])"
| "truthy (JList xs) = (xs \<noteq> [])"
| "truthy (JDict kvs) = (kvs \<noteq> [])"

text \<open>\<^verbatim>\<open>for x in v\<close>: a list yields its elements, a dict its keys, a string its characters;
  the other values are not iterable.\<close>

fun iterate :: "json \<Rightarrow> py_error + json list" where
  "iterate (JList xs) = Inr xs"
| "iterate (JDict kvs) = Inr (map (\<lambda>kv. JStr (fst kv)) kvs)"
| "iterate (JStr s) = Inr (map (\<lambda>c. JStr [c]) s)"
| "iterate v = Inl TypeError"

section \<open>Strings\<close>

text \<open>
  \<^verbatim>\<open>str.lower()\<close> is used in two ways. Lines 87 and 144 only compare its result with the
  words \<^verbatim>\<open>true\<close>, \<^verbatim>\<open>1\<close> and \<^verbatim>\<open>yes\<close>. The only characters outside ASCII whose lower case
  contains an ASCII letter are U+0130 (an \<^verbatim>\<open>i\<close> with a combining dot) and U+212A (\<^verbatim>\<open>k\<close>), and
  neither letter occurs in these words; so for these comparisons it is enough to lower the
  ASCII letters and leave every other byte as it is, which \<open>str_lower\<close> does. Line 264
  searches in the lowered text, which needs \<^verbatim>\<open>str.lower()\<close> on every cased letter of
  Unicode: there it is the parameter \<open>lower\<close> of \<open>search_books\<close>.
\<close>

definition lower_char :: "char \<Rightarrow> char" where
  "lower_char c =
     (case map_of (zip ''ABCDEFGHIJKLMNOPQRSTUVWXYZ'' ''abcdefghijklmnopqrstuvwxyz'') c of
        None \<Rightarrow> c
      | Some l \<Rightarrow> l)"

definition str_lower :: "string \<Rightarrow> string" where
  "str_lower s = map lower_char s"

text \<open>\<^verbatim>\<open>needle in haystack\<close> on strings: a scan for the first position where the needle
  starts.\<close>

fun startswith :: "string \<Rightarrow> string \<Rightarrow> bool" where
  "startswith s [] = True"
| "startswith [] (p # ps) = False"
| "startswith (c # s) (p # ps) = (c = p \<and> startswith s ps)"

fun str_in :: "string \<Rightarrow> string \<Rightarrow> bool" where
  "str_in needle [] = (needle = [])"
| "str_in needle (c # s) = (startswith (c # s) needle \<or> str_in needle s)"

text \<open>\<^verbatim>\<open>str(n)\<close> of an integer, in decimal.\<close>

fun digits :: "nat \<Rightarrow> string" where
  "digits n =
     (if n < 10 then [''0123456789'' ! n]
      else digits (n div 10) @ [''0123456789'' ! (n mod 10)])"

declare digits.simps [simp del]

definition str_int :: "int \<Rightarrow> string" where
  "str_int i = (if i < 0 then CHR ''-'' # digits (nat (- i)) else digits (nat i))"

text \<open>\<^verbatim>\<open>str(v)\<close>. For a float, a list or a dict Python prints its \<^verbatim>\<open>repr\<close>, which is taken
  as the parameter \<open>repr_of\<close>.\<close>

fun py_str :: "(json \<Rightarrow> string) \<Rightarrow> json \<Rightarrow> string" where
  "py_str repr_of (JStr s) = s"
| "py_str repr_of (JInt i) = str_int i"
| "py_str repr_of (JBool b) = (if b then ''True'' else ''False'')"
| "py_str repr_of JNull = ''None''"
| "py_str repr_of v = repr_of v"

section \<open>Session state, the file and the messages\<close>

text \<open>
  What opening a file and \<^verbatim>\<open>json.load\<close> make of it: the value the text denotes, or an
  exception. \<^verbatim>\<open>open\<close> raises \<^verbatim>\<open>FileNotFoundError\<close> for a missing file and
  \<^verbatim>\<open>PermissionError\<close> for one it may not read; reading raises \<^verbatim>\<open>UnicodeDecodeError\<close> for
  bytes that are not text in the encoding; \<^verbatim>\<open>json.load\<close> raises \<^verbatim>\<open>JSONDecodeError\<close> for a text
  that is not JSON, \<^verbatim>\<open>ValueError\<close> for an integer literal beyond the digit limit and
  \<^verbatim>\<open>RecursionError\<close> for a nesting that is too deep. \<^verbatim>\<open>json.dump\<close> and \<^verbatim>\<open>json.dumps\<close>
  write a text that denotes the value they are given, so a written file is identified with
  \<open>Parsed\<close> of that value.
\<close>

datatype read_result = Raises py_error | Parsed json

datatype message =
    Invalid_library_format
  | Corrupted_library_file
  | Removed_invalid_entry nat
  | Loaded_valid_books nat
  | No_data_to_export
  | Imported_valid_books nat
  | Skipped_invalid_entries nat
  | Invalid_file_format
  | Library_imported
  | Import_error
  | Required_fields
  | Book_added
  | Found_results nat
  | No_matching_books

datatype ui_event =
    St_error message
  | St_warning message
  | St_toast message
  | St_success message
  | St_balloons

text \<open>\<open>library\<close> is \<^verbatim>\<open>st.session_state.library\<close>; \<open>library_json\<close> is what reading the file
  \<^verbatim>\<open>library.json\<close> gives; \<open>ui\<close> collects the messages shown, in order.\<close>

record state =
  library :: json
  library_json :: read_result
  ui :: "ui_event list"

definition report :: "ui_event \<Rightarrow> state \<Rightarrow> state" where
  "report e st = st\<lparr>ui := ui st @ [e]\<rparr>"

section \<open>Store: \<^verbatim>\<open>save_library\<close> and \<^verbatim>\<open>load_library\<close>\<close>

definition save_library :: "state \<Rightarrow> state" where
  "save_library st = st\<lparr>library_json := Parsed (library st)\<rparr>"

definition required_keys :: "string list" where
  "required_keys = [''title'', ''author'', ''year'', ''genre'', ''read'']"

text \<open>Line 84: \<^verbatim>\<open>isinstance(item, dict) and all(key in item for key in [...])\<close>.\<close>

fun valid_entry :: "json \<Rightarrow> bool" where
  "valid_entry (JDict kvs) = list_all (\<lambda>key. key_in key kvs) required_keys"
| "valid_entry v = False"

text \<open>Lines 86-87, run on an entry that passed the test of line 84.\<close>

fun convert_legacy_read :: "json \<Rightarrow> json" where
  "convert_legacy_read (JDict kvs) =
     (case map_of kvs ''read'' of
        Some (JStr s) \<Rightarrow> JDict (setitem ''read'' (JBool (str_lower s = ''true'')) kvs)
      | _ \<Rightarrow> JDict kvs)"
| "convert_legacy_read v = v"

text \<open>The loop of lines 82-90 over \<^verbatim>\<open>enumerate(raw_data)\<close>, with the list \<open>valid_books\<close>
  and the messages as accumulators.\<close>

fun load_entries ::
  "nat \<Rightarrow> json list \<Rightarrow> json list \<Rightarrow> ui_event list \<Rightarrow> json list \<times> ui_event list" where
  "load_entries idx [] valid_books shown = (valid_books, shown)"
| "load_entries idx (item # rest) valid_books shown =
     (if valid_entry item
      then load_entries (Suc idx) rest (valid_books @ [convert_legacy_read item]) shown
      else load_entries (Suc idx) rest valid_books
             (shown @ [St_warning (Removed_invalid_entry idx)]))"

text \<open>Lines 70-99. The two \<^verbatim>\<open>except\<close> clauses catch \<^verbatim>\<open>FileNotFoundError\<close> and
  \<^verbatim>\<open>json.JSONDecodeError\<close>; any other exception of the \<^verbatim>\<open>try\<close> block leaves the function,
  and the library is what it was.\<close>

definition load_library :: "state \<Rightarrow> py_error + state" where
  "load_library st =
     (case library_json st of
        Parsed raw_data \<Rightarrow>
          (case raw_data of
             JList entries \<Rightarrow>
               (let (valid_books, shown) = load_entries 0 entries [] (ui st)
                in Inr (st\<lparr>library := JList valid_books,
                           ui := shown @ [St_toast (Loaded_valid_books (length valid_books))]\<rparr>))
           | _ \<Rightarrow> Inr ((report (St_error Invalid_library_format) st)\<lparr>library := JList []\<rparr>))
      | Raises e \<Rightarrow>
          (if e = FileNotFoundError then Inr (st\<lparr>library := JList []\<rparr>)
           else if e = JSONDecodeError
           then Inr ((report (St_error Corrupted_library_file) st)\<lparr>library := JList []\<rparr>)
           else Inl e))"

section \<open>Data management: \<^verbatim>\<open>file_handling\<close>\<close>

text \<open>
  The source defines \<^verbatim>\<open>file_handling\<close> twice, at lines 101-156 and again at lines 349-381.
  Python binds the name to the later definition, so \<^verbatim>\<open>main\<close> runs the one of lines
  349-381; it is \<open>file_handling\<close> below. The earlier one, which nothing can call once the
  module is loaded, is \<open>file_handling_shadowed\<close>.

  Both take the uploaded file (\<open>None\<close> when nothing is uploaded, otherwise what
  decoding it and \<^verbatim>\<open>json.load\<close> make of it) and return the data behind the download button
  (\<open>None\<close> when no button is shown) with the new state. Both catch every exception of the
  import in \<^verbatim>\<open>except Exception\<close>.
\<close>

text \<open>Lines 141-144, the repair of an imported dict.\<close>

definition auto_fix :: "(string \<times> json) list \<Rightarrow> (string \<times> json) list" where
  "auto_fix kvs =
     (let item = (if \<not> key_in ''read'' kvs then setitem ''read'' (JBool False) kvs else kvs)
      in case map_of item ''read'' of
           Some (JStr s) \<Rightarrow>
             setitem ''read'' (JBool (str_lower s \<in> set [''true'', ''1'', ''yes''])) item
         | _ \<Rightarrow> item)"

text \<open>The loop of lines 136-147.\<close>

fun import_entries :: "json list \<Rightarrow> json list \<Rightarrow> nat \<Rightarrow> json list \<times> nat" where
  "import_entries [] valid_books error_count = (valid_books, error_count)"
| "import_entries (item # rest) valid_books error_count =
     (case item of
        JDict kvs \<Rightarrow> import_entries rest (valid_books @ [JDict (auto_fix kvs)]) error_count
      | _ \<Rightarrow> import_entries rest valid_books (error_count + 1))"

definition file_handling_shadowed :: "read_result option \<Rightarrow> state \<Rightarrow> json option \<times> state" where
  "file_handling_shadowed uploaded_file st =
     (let (download, st1) =
            (if truthy (library st) then (Some (library st), st)
             else (None, report (St_warning No_data_to_export) st))
      in (download,
          case uploaded_file of
            None \<Rightarrow> st1
          | Some (Raises e) \<Rightarrow> report (St_error Invalid_file_format) st1
          | Some (Parsed data) \<Rightarrow>
              (case data of
                 JList entries \<Rightarrow>
                   (let (valid_books, error_count) = import_entries entries [] 0;
                        st2 = save_library (st1\<lparr>library := JList valid_books\<rparr>);
                        st3 = report (St_success (Imported_valid_books (length valid_books))) st2
                    in if error_count > 0
                       then report (St_warning (Skipped_invalid_entries error_count)) st3
                       else st3)
               | _ \<Rightarrow> report (St_error Invalid_file_format) st1)))"

definition file_handling :: "read_result option \<Rightarrow> state \<Rightarrow> json option \<times> state" where
  "file_handling uploaded_file st =
     (Some (library st),
      case uploaded_file of
        None \<Rightarrow> st
      | Some (Raises e) \<Rightarrow> report (St_error Import_error) st
      | Some (Parsed new_library) \<Rightarrow>
          report (St_success Library_imported) (save_library (st\<lparr>library := new_library\<rparr>)))"

section \<open>Adding a book: \<^verbatim>\<open>add_book\<close>\<close>

datatype genre_option = Fiction | Non_Fiction | Science | History | Biography | Other

fun genre_label :: "genre_option \<Rightarrow> string" where
  "genre_label Fiction = ''Fiction''"
| "genre_label Non_Fiction = ''Non-Fiction''"
| "genre_label Science = ''Science''"
| "genre_label History = ''History''"
| "genre_label Biography = ''Biography''"
| "genre_label Other = ''Other''"

datatype read_option = Read | Unread

text \<open>The widgets of the form. \<open>year\<close> is what \<^verbatim>\<open>st.number_input\<close> returns; the widget is
  created with \<^verbatim>\<open>min_value=1\<close> and \<^verbatim>\<open>max_value=datetime.datetime.now().year\<close>.\<close>

record add_book_form =
  title :: string
  year :: int
  author :: string
  genre :: genre_option
  read_status :: read_option
  form_submit_button :: bool

definition new_book :: "add_book_form \<Rightarrow> json" where
  "new_book f =
     JDict [(''title'', JStr (title f)),
            (''author'', JStr (author f)),
            (''year'', JInt (year f)),
            (''genre'', JStr (genre_label (genre f))),
            (''read'', JBool (read_status f = Read))]"

text \<open>Lines 210-224. \<^verbatim>\<open>library.append\<close> exists on a list only.\<close>

definition add_book :: "add_book_form \<Rightarrow> state \<Rightarrow> py_error + state" where
  "add_book f st =
     (if form_submit_button f then
        (if title f = [] \<or> author f = [] then Inr (report (St_error Required_fields) st)
         else
           (case library st of
              JList books \<Rightarrow>
                Inr (report St_balloons
                      (report (St_success Book_added)
                        (save_library (st\<lparr>library := JList (books @ [new_book f])\<rparr>))))
            | _ \<Rightarrow> Inl AttributeError))
      else Inr st)"

section \<open>Searching: \<^verbatim>\<open>search_books\<close>\<close>

datatype search_option = Title | Author | Genre

text \<open>Line 263: \<^verbatim>\<open>search_type.lower() if search_type != "Genre" else "genre"\<close>.\<close>

fun search_key :: "search_option \<Rightarrow> string" where
  "search_key Title = ''title''"
| "search_key Author = ''author''"
| "search_key Genre = ''genre''"

text \<open>The loop of lines 261-265, \<open>results\<close> being the accumulator. \<open>lower\<close> is
  \<^verbatim>\<open>str.lower()\<close> and \<open>repr_of\<close> is \<^verbatim>\<open>repr\<close>, both of Python's library.\<close>

fun search_loop ::
  "(string \<Rightarrow> string) \<Rightarrow> (json \<Rightarrow> string) \<Rightarrow> string \<Rightarrow> string \<Rightarrow> json list \<Rightarrow> json list
     \<Rightarrow> py_error + json list" where
  "search_loop lower repr_of key search_term [] results = Inr results"
| "search_loop lower repr_of key search_term (book # rest) results =
     (case getitem book key of
        Inl e \<Rightarrow> Inl e
      | Inr target \<Rightarrow>
          (if str_in (lower search_term) (lower (py_str repr_of target))
           then search_loop lower repr_of key search_term rest (results @ [book])
           else search_loop lower repr_of key search_term rest results))"

text \<open>Lines 270-283: the card of a result reads \<^verbatim>\<open>book['read']\<close>, then the title, the
  author, the year and the genre.\<close>

fun read_keys :: "json \<Rightarrow> string list \<Rightarrow> py_error + unit" where
  "read_keys book [] = Inr ()"
| "read_keys book (key # keys) =
     (case getitem book key of Inl e \<Rightarrow> Inl e | Inr v \<Rightarrow> read_keys book keys)"

fun render_cards :: "json list \<Rightarrow> py_error + unit" where
  "render_cards [] = Inr ()"
| "render_cards (book # rest) =
     (case read_keys book [''read'', ''title'', ''author'', ''year'', ''genre''] of
        Inl e \<Rightarrow> Inl e
      | Inr u \<Rightarrow> render_cards rest)"

text \<open>The result is \<open>None\<close> when the search term is empty (nothing is searched), and the
  list \<open>results\<close> otherwise.\<close>

definition search_books ::
  "(string \<Rightarrow> string) \<Rightarrow> (json \<Rightarrow> string) \<Rightarrow> search_option \<Rightarrow> string \<Rightarrow> state
     \<Rightarrow> py_error + (json list option \<times> state)" where
  "search_books lower repr_of search_type search_term st =
     (if search_term \<noteq> [] then
        (case iterate (library st) of
           Inl e \<Rightarrow> Inl e
         | Inr books \<Rightarrow>
             (case search_loop lower repr_of (search_key search_type) search_term books [] of
                Inl e \<Rightarrow> Inl e
              | Inr results \<Rightarrow>
                  (if results \<noteq> [] then
                     (case render_cards results of
                        Inl e \<Rightarrow> Inl e
                      | Inr _ \<Rightarrow>
                          Inr (Some results,
                               report (St_success (Found_results (length results))) st))
                   else Inr (Some results, report (St_warning No_matching_books) st))))
      else Inr (None, st))"

section \<open>The properties, in the words of the specification\<close>



text \<open>A Book of the data model: a dict with a string \<^verbatim>\<open>title\<close>, a string \<^verbatim>\<open>author\<close>, an
  integer \<^verbatim>\<open>year\<close>, a string \<^verbatim>\<open>genre\<close> and a boolean \<^verbatim>\<open>read\<close>.\<close>

definition is_book :: "json \<Rightarrow> bool" where
  "is_book v =
     (case v of
        JDict kvs \<Rightarrow>
          (case map_of kvs ''title'' of Some (JStr t) \<Rightarrow> True | _ \<Rightarrow> False)
        \<and> (case map_of kvs ''author'' of Some (JStr a) \<Rightarrow> True | _ \<Rightarrow> False)
        \<and> (case map_of kvs ''year'' of Some (JInt y) \<Rightarrow> True | _ \<Rightarrow> False)
        \<and> (case map_of kvs ''genre'' of Some (JStr g) \<Rightarrow> True | _ \<Rightarrow> False)
        \<and> (case map_of kvs ''read'' of Some (JBool r) \<Rightarrow> True | _ \<Rightarrow> False)
      | _ \<Rightarrow> False)"

text \<open>The invariant of the data model: title and author non-empty, year within
  \<open>[1, current_year]\<close>.\<close>

definition book_invariant :: "int \<Rightarrow> json \<Rightarrow> bool" where
  "book_invariant current_year book =
     (case book of
        JDict kvs \<Rightarrow>
          (case map_of kvs ''title'' of Some (JStr t) \<Rightarrow> t \<noteq> [] | _ \<Rightarrow> False)
        \<and> (case map_of kvs ''author'' of Some (JStr a) \<Rightarrow> a \<noteq> [] | _ \<Rightarrow> False)
        \<and> (case map_of kvs ''year'' of
              Some (JInt y) \<Rightarrow> 1 \<le> y \<and> y \<le> current_year
            | _ \<Rightarrow> False)
      | _ \<Rightarrow> False)"

section \<open>Sample inputs\<close>

definition dune :: json where
  "dune = JDict [(''title'', JStr ''Dune''), (''author'', JStr ''Herbert''),
                 (''year'', JInt 1965), (''genre'', JStr ''Science Fiction''),
                 (''read'', JBool True)]"

definition emma_legacy :: json where
  "emma_legacy = JDict [(''title'', JStr ''Emma''), (''author'', JStr ''Austen''),
                        (''year'', JInt 1815), (''genre'', JStr ''Fiction''),
                        (''read'', JStr ''TRUE'')]"

definition emma :: json where
  "emma = JDict [(''title'', JStr ''Emma''), (''author'', JStr ''Austen''),
                 (''year'', JInt 1815), (''genre'', JStr ''Fiction''),
                 (''read'', JBool True)]"

definition history :: json where
  "history = JDict [(''title'', JStr ''SPQR''), (''author'', JStr ''Beard''),
                    (''year'', JInt 2015), (''genre'', JStr ''History''),
                    (''read'', JBool False)]"


definition nameless :: json where
  "nameless = JDict [(''title'', JStr []), (''author'', JStr []),
                     (''year'', JInt 0), (''genre'', JStr ''Fiction''),
                     (''read'', JBool False)]"

definition legacy_fields :: "string \<Rightarrow> (string \<times> json) list" where
  "legacy_fields r = [(''title'', JStr ''Emma''), (''author'', JStr ''Austen''),
                      (''year'', JInt 1815), (''genre'', JStr ''Fiction''), (''read'', JStr r)]"

definition book_fields :: "bool \<Rightarrow> (string \<times> json) list" where
  "book_fields r = [(''title'', JStr ''Emma''), (''author'', JStr ''Austen''),
                    (''year'', JInt 1815), (''genre'', JStr ''Fiction''), (''read'', JBool r)]"

definition no_read_fields :: "(string \<times> json) list" where
  "no_read_fields = [(''title'', JStr ''Dune''), (''author'', JStr ''Herbert''),
                     (''year'', JInt 1965), (''genre'', JStr ''Fiction'')]"

definition legacy_file :: read_result where
  "legacy_file =
     Parsed (JList [JDict (legacy_fields ''1''), JDict (legacy_fields ''YES''),
                    JDict (legacy_fields ''false''), JDict (legacy_fields []),
                    JDict (legacy_fields ''True'')])"

definition upload :: read_result where
  "upload = Parsed (JList [JDict no_read_fields, JInt 7, JDict (legacy_fields ''yes'')])"

text \<open>A fresh session (line 63) beside a given \<^verbatim>\<open>library.json\<close>.\<close>

definition session :: "read_result \<Rightarrow> state" where
  "session file = \<lparr>library = JList [], library_json = file, ui = []\<rparr>"

definition shelf :: state where
  "shelf = \<lparr>library = JList [dune, history, emma],
            library_json = Parsed (JList [dune, history, emma]), ui = []\<rparr>"

definition two_books :: state where
  "two_books = \<lparr>library = JList [dune, emma],
                library_json = Parsed (JList [dune, emma]), ui = []\<rparr>"

definition blank_title :: add_book_form where
  "blank_title = \<lparr>title = [], year = 1965, author = ''Herbert'', genre = Fiction,
                   read_status = Unread, form_submit_button = True\<rparr>"

definition spqr_form :: add_book_form where
  "spqr_form = \<lparr>title = ''SPQR'', year = 2015, author = ''Beard'', genre = History,
                 read_status = Unread, form_submit_button = True\<rparr>"

text \<open>A lowering that also knows one letter outside ASCII: it turns the two bytes of
  U+00C9 (capital E with acute) into those of U+00E9, and lowers the ASCII letters.\<close>

fun lower_latin :: "string \<Rightarrow> string" where
  "lower_latin (c # d # s) =
     (if c = CHR 0xC3 \<and> d = CHR 0x89 then CHR 0xC3 # CHR 0xA9 # lower_latin s
      else lower_char c # lower_latin (d # s))"
| "lower_latin [c] = [lower_char c]"
| "lower_latin [] = []"

text \<open>A book whose title starts with U+00C9.\<close>

definition ecole :: json where
  "ecole = JDict [(''title'',
                     JStr [CHR 0xC3, CHR 0x89, CHR ''c'', CHR ''o'', CHR ''l'', CHR ''e'']),
                  (''author'', JStr ''Ionesco''), (''year'', JInt 1951),
                  (''genre'', JStr ''Other''), (''read'', JBool False)]"

lemmas eval_defs = required_keys_def key_in_def setitem_def str_lower_def lower_char_def

section \<open>Dicts\<close>

lemma key_in_iff: "key_in key kvs \<longleftrightarrow> key \<in> fst ` set kvs"
  by (simp add: key_in_def map_of_eq_None_iff)

lemma map_of_setitem: "map_of (setitem key v kvs) = (map_of kvs)(key \<mapsto> v)"
  by (simp add: setitem_def update_conv')

lemma key_in_setitem: "key_in k (setitem key v kvs) \<longleftrightarrow> k = key \<or> key_in k kvs"
  by (simp add: key_in_def map_of_setitem)

section \<open>Properties of \<^verbatim>\<open>load_library\<close>\<close>

lemma valid_entry_iff:
  "valid_entry v \<longleftrightarrow> (\<exists>kvs. v = JDict kvs \<and> set required_keys \<subseteq> fst ` set kvs)"
  by (cases v) (auto simp: list_all_iff key_in_iff)

lemma valid_entry_convert: "valid_entry item \<Longrightarrow> valid_entry (convert_legacy_read item)"
  by (cases item) (auto simp: list_all_iff key_in_setitem split: option.splits json.splits)

text \<open>The loop with its accumulators is a filter followed by a map; the warnings are those
  of the positions that fail the test, counted from \<open>idx\<close>.\<close>

lemma load_entries_eq:
  "load_entries idx entries valid_books shown =
     (valid_books @ map convert_legacy_read (filter valid_entry entries),
      shown @ map (\<lambda>p. St_warning (Removed_invalid_entry (fst p)))
                (filter (\<lambda>p. \<not> valid_entry (snd p)) (enumerate idx entries)))"
  by (induction entries arbitrary: idx valid_books shown) auto

lemma load_library_parsed_list:
  "library_json st = Parsed (JList entries) \<Longrightarrow>
   load_library st =
     Inr (st\<lparr>library := JList (map convert_legacy_read (filter valid_entry entries)),
             ui := ui st @ map (\<lambda>p. St_warning (Removed_invalid_entry (fst p)))
                             (filter (\<lambda>p. \<not> valid_entry (snd p)) (enumerate 0 entries))
                    @ [St_toast (Loaded_valid_books (length (filter valid_entry entries)))]\<rparr>)"
  by (simp add: load_library_def load_entries_eq)

lemma convert_legacy_read_not_str:
  assumes "valid_entry item"
  shows "\<exists>kvs v. convert_legacy_read item = JDict kvs \<and> map_of kvs ''read'' = Some v
           \<and> \<not> isinstance_str v"
proof -
  from assms obtain kvs where item: "item = JDict kvs" and k: "key_in ''read'' kvs"
    by (cases item) (auto simp: required_keys_def)
  from k obtain v where v: "map_of kvs ''read'' = Some v"
    by (auto simp: key_in_def)
  show ?thesis
  proof (cases v)
    case (JStr s)
    with v item show ?thesis by (simp add: map_of_setitem)
  qed (use v item in auto)
qed



text \<open>
  C3. When \<^verbatim>\<open>library.json\<close> holds a JSON array of N entries that are all dicts with the five
  required keys, \<^verbatim>\<open>load_library\<close> returns normally, the library after it is a list of N
  books, and the last message reports N loaded books.
\<close>

theorem load_library_size:
  assumes "library_json st = Parsed (JList entries)"
    and "\<forall>entry \<in> set entries. valid_entry entry"
  shows "\<exists>st' books. load_library st = Inr st'
           \<and> library st' = JList books \<and> length books = length entries
           \<and> last (ui st') = St_toast (Loaded_valid_books (length entries))"
proof -
  from assms(2) have "filter valid_entry entries = entries"
    by (simp add: filter_id_conv)
  with assms(1) show ?thesis
    by (simp add: load_library_parsed_list)
qed

theorem load_library_size_witness:
  "library_json (session (Parsed (JList [dune, emma_legacy])))
     = Parsed (JList [dune, emma_legacy])
   \<and> valid_entry dune \<and> valid_entry emma_legacy
   \<and> (\<exists>st' books. load_library (session (Parsed (JList [dune, emma_legacy]))) = Inr st'
         \<and> library st' = JList books
         \<and> length books = length [dune, emma_legacy]
         \<and> last (ui st') = St_toast (Loaded_valid_books (length [dune, emma_legacy])))"
proof -
  have f: "library_json (session (Parsed (JList [dune, emma_legacy])))
             = Parsed (JList [dune, emma_legacy])"
    by (simp add: session_def)
  have v: "valid_entry dune" "valid_entry emma_legacy"
    by (simp_all add: dune_def emma_legacy_def eval_defs)
  then have "\<forall>entry \<in> set [dune, emma_legacy]. valid_entry entry"
    by simp
  from load_library_size [OF f this] f v show ?thesis by blast
qed




text \<open>
  C9. After a load that found the file, parsed it and got a list, every entry of the library
  is a dict that has the five keys \<^verbatim>\<open>title\<close>, \<^verbatim>\<open>author\<close>, \<^verbatim>\<open>year\<close>, \<^verbatim>\<open>genre\<close>, \<^verbatim>\<open>read\<close>,
  and the value of its \<^verbatim>\<open>read\<close> is not a string.
\<close>

theorem load_library_entries_wellformed:
  assumes "library_json st = Parsed (JList entries)"
  shows "\<exists>st' books. load_library st = Inr st' \<and> library st' = JList books
           \<and> (\<forall>book \<in> set books. \<exists>kvs v. book = JDict kvs
                 \<and> set [''title'', ''author'', ''year'', ''genre'', ''read''] \<subseteq> fst ` set kvs
                 \<and> map_of kvs ''read'' = Some v \<and> \<not> isinstance_str v)"
proof -
  have "\<exists>kvs v. book = JDict kvs
          \<and> set [''title'', ''author'', ''year'', ''genre'', ''read''] \<subseteq> fst ` set kvs
          \<and> map_of kvs ''read'' = Some v \<and> \<not> isinstance_str v"
    if "book \<in> set (map convert_legacy_read (filter valid_entry entries))" for book
  proof -
    from that obtain item where item: "valid_entry item" and book: "book = convert_legacy_read item"
      by auto
    from convert_legacy_read_not_str [OF item] obtain kvs v
      where kv: "convert_legacy_read item = JDict kvs" "map_of kvs ''read'' = Some v"
        "\<not> isinstance_str v"
      by blast
    from valid_entry_convert [OF item] kv(1)
    have "set required_keys \<subseteq> fst ` set kvs"
      by (simp add: valid_entry_iff)
    with kv book show ?thesis
      by (simp add: required_keys_def)
  qed
  with assms show ?thesis
    by (simp add: load_library_parsed_list)
qed

theorem load_library_entries_wellformed_witness:
  "library_json (session (Parsed (JList [emma_legacy, JNull, dune])))
     = Parsed (JList [emma_legacy, JNull, dune])
   \<and> (\<exists>st' books. load_library (session (Parsed (JList [emma_legacy, JNull, dune]))) = Inr st'
         \<and> library st' = JList books
         \<and> (\<forall>book \<in> set books. \<exists>kvs v. book = JDict kvs
               \<and> set [''title'', ''author'', ''year'', ''genre'', ''read''] \<subseteq> fst ` set kvs
               \<and> map_of kvs ''read'' = Some v \<and> \<not> isinstance_str v))"
proof -
  have f: "library_json (session (Parsed (JList [emma_legacy, JNull, dune])))
             = Parsed (JList [emma_legacy, JNull, dune])"
    by (simp add: session_def)
  from load_library_entries_wellformed [OF f] f show ?thesis by blast
qed

text \<open>
  C10. On load, an entry whose \<^verbatim>\<open>read\<close> is a string with a lower-case form other than
  \<^verbatim>\<open>true\<close> (so \<^verbatim>\<open>1\<close>, \<^verbatim>\<open>yes\<close>, \<^verbatim>\<open>false\<close> and the empty string among others) enters
  the library with \<^verbatim>\<open>read\<close> set to \<^verbatim>\<open>False\<close>. The repair of lines 141-144 (\<open>auto_fix\<close>)
  turns the same entry into one with \<^verbatim>\<open>read\<close> set to \<^verbatim>\<open>True\<close> when the lower-case form
  is \<^verbatim>\<open>1\<close> or \<^verbatim>\<open>yes\<close>.
\<close>

theorem load_library_coerces_other_strings_to_False:
  assumes "library_json st = Parsed (JList entries)"
    and "JDict kvs \<in> set entries"
    and "valid_entry (JDict kvs)"
    and "map_of kvs ''read'' = Some (JStr s)"
    and "str_lower s \<noteq> ''true''"
  shows "convert_legacy_read (JDict kvs) = JDict (setitem ''read'' (JBool False) kvs)
       \<and> map_of (setitem ''read'' (JBool False) kvs) ''read'' = Some (JBool False)
       \<and> (\<exists>st' books. load_library st = Inr st' \<and> library st' = JList books
             \<and> JDict (setitem ''read'' (JBool False) kvs) \<in> set books)
       \<and> (str_lower s \<in> {''1'', ''yes''} \<longrightarrow>
             map_of (auto_fix kvs) ''read'' = Some (JBool True))"
proof -
  from assms(4,5)
  have c: "convert_legacy_read (JDict kvs) = JDict (setitem ''read'' (JBool False) kvs)"
    by simp
  from assms(2,3) have "convert_legacy_read (JDict kvs)
      \<in> set (map convert_legacy_read (filter valid_entry entries))"
    by (simp del: convert_legacy_read.simps valid_entry.simps)
  with c assms(1) have "\<exists>st' books. load_library st = Inr st' \<and> library st' = JList books
             \<and> JDict (setitem ''read'' (JBool False) kvs) \<in> set books"
    by (simp add: load_library_parsed_list del: convert_legacy_read.simps valid_entry.simps)
  moreover from assms(4) have "str_lower s \<in> {''1'', ''yes''} \<longrightarrow>
             map_of (auto_fix kvs) ''read'' = Some (JBool True)"
    by (auto simp: auto_fix_def key_in_def map_of_setitem)
  ultimately show ?thesis using c
    by (simp add: map_of_setitem)
qed

theorem load_library_coerces_other_strings_to_False_witness:
  "library_json (session legacy_file) = legacy_file
   \<and> valid_entry (JDict (legacy_fields ''YES''))
   \<and> map_of (legacy_fields ''YES'') ''read'' = Some (JStr ''YES'')
   \<and> str_lower ''YES'' \<noteq> ''true''
   \<and> JDict (setitem ''read'' (JBool False) (legacy_fields ''YES'')) = JDict (book_fields False)
   \<and> (\<exists>st'. load_library (session legacy_file) = Inr st' \<and> library st' =
       JList [JDict (book_fields False), JDict (book_fields False), JDict (book_fields False),
              JDict (book_fields False), JDict (book_fields True)])
   \<and> auto_fix (legacy_fields ''YES'') = book_fields True
   \<and> auto_fix (legacy_fields ''1'') = book_fields True"
proof -
  have f: "library_json (session legacy_file) =
      Parsed (JList [JDict (legacy_fields ''1''), JDict (legacy_fields ''YES''),
                     JDict (legacy_fields ''false''), JDict (legacy_fields []),
                     JDict (legacy_fields ''True'')])"
    by (simp add: session_def legacy_file_def)
  have m: "JDict (legacy_fields ''YES'')
      \<in> set [JDict (legacy_fields ''1''), JDict (legacy_fields ''YES''),
             JDict (legacy_fields ''false''), JDict (legacy_fields []),
             JDict (legacy_fields ''True'')]"
    by simp
  have v: "valid_entry (JDict (legacy_fields ''YES''))"
    by (simp add: legacy_fields_def eval_defs)
  have r: "map_of (legacy_fields ''YES'') ''read'' = Some (JStr ''YES'')"
    by (simp add: legacy_fields_def)
  have n: "str_lower ''YES'' \<noteq> ''true''"
    by (simp add: eval_defs)
  have e: "\<exists>st'. load_library (session legacy_file) = Inr st' \<and> library st' =
       JList [JDict (book_fields False), JDict (book_fields False), JDict (book_fields False),
              JDict (book_fields False), JDict (book_fields True)]"
    by (simp add: load_library_def session_def legacy_file_def legacy_fields_def book_fields_def
        eval_defs)
  have s: "JDict (setitem ''read'' (JBool False) (legacy_fields ''YES'')) = JDict (book_fields False)"
    by (simp add: legacy_fields_def book_fields_def eval_defs)
  have a: "auto_fix (legacy_fields ''YES'') = book_fields True"
    "auto_fix (legacy_fields ''1'') = book_fields True"
    by (simp_all add: auto_fix_def legacy_fields_def book_fields_def eval_defs)
  from load_library_coerces_other_strings_to_False [OF f m v r n] f v r n e s a
  show ?thesis by (simp add: session_def)
qed

section \<open>Properties of \<^verbatim>\<open>file_handling\<close>\<close>

subsection \<open>The shadowed definition (lines 101-156)\<close>

lemma setitem_new: "\<not> key_in key kvs \<Longrightarrow> setitem key v kvs = kvs @ [(key, v)]"
  by (induction kvs) (auto simp: setitem_def key_in_def)

text \<open>The repair: a missing \<^verbatim>\<open>read\<close> is added as \<^verbatim>\<open>False\<close>; a string \<^verbatim>\<open>read\<close> becomes the
  boolean "its lower case is \<^verbatim>\<open>true\<close>, \<^verbatim>\<open>1\<close> or \<^verbatim>\<open>yes\<close>"; any other \<^verbatim>\<open>read\<close> stays.\<close>

lemma auto_fix_missing:
  "\<not> key_in ''read'' kvs \<Longrightarrow> auto_fix kvs = kvs @ [(''read'', JBool False)]"
  by (simp add: auto_fix_def setitem_new key_in_def Let_def map_add_def)

lemma auto_fix_str:
  "map_of kvs ''read'' = Some (JStr s) \<Longrightarrow>
   auto_fix kvs = setitem ''read'' (JBool (str_lower s \<in> {''true'', ''1'', ''yes''})) kvs"
  by (simp add: auto_fix_def key_in_def)

lemma auto_fix_other:
  "map_of kvs ''read'' = Some v \<Longrightarrow> \<not> isinstance_str v \<Longrightarrow> auto_fix kvs = kvs"
  by (cases v) (simp_all add: auto_fix_def key_in_def)

lemma import_entries_eq:
  "import_entries entries valid_books error_count =
     (valid_books @ map (\<lambda>item. case item of JDict kvs \<Rightarrow> JDict (auto_fix kvs) | _ \<Rightarrow> item)
                      (filter isinstance_dict entries),
      error_count + length (filter (\<lambda>item. \<not> isinstance_dict item) entries))"
proof (induction entries arbitrary: valid_books error_count)
  case Nil
  then show ?case by simp
next
  case (Cons item rest)
  then show ?case by (cases item) simp_all
qed

text \<open>Had it been the definition in force, the earlier \<^verbatim>\<open>file_handling\<close> would import a
  JSON array as its dicts, each repaired, in order.\<close>

lemma file_handling_shadowed_import:
  "library (snd (file_handling_shadowed (Some (Parsed (JList entries))) st)) =
     JList (map (\<lambda>item. case item of JDict kvs \<Rightarrow> JDict (auto_fix kvs) | _ \<Rightarrow> item)
              (filter isinstance_dict entries))"
  by (simp add: file_handling_shadowed_def import_entries_eq save_library_def report_def Let_def
      split: prod.splits)

subsection \<open>The definition in force (lines 349-381)\<close>

text \<open>
  C1. The claim is that importing a JSON array defaults a missing \<^verbatim>\<open>read\<close> to false, turns a
  string \<^verbatim>\<open>read\<close> into a boolean (\<^verbatim>\<open>true\<close>, \<^verbatim>\<open>1\<close>, \<^verbatim>\<open>yes\<close> being true) and drops and
  counts the entries that are not dicts. The \<^verbatim>\<open>file_handling\<close> that runs does none of this:
  for the upload \<^verbatim>\<open>[{title, author, year, genre}, 7, {..., "read": "yes"}]\<close> the library
  becomes that very list, and the only message is the success message. The load of the next
  run, reading the file the import saved, drops the first two entries and turns \<^verbatim>\<open>yes\<close> into
  \<^verbatim>\<open>False\<close>. The shadowed definition, on the same upload, gives what the claim says: two
  books, the first with \<^verbatim>\<open>read\<close> added as \<^verbatim>\<open>False\<close>, the second with \<^verbatim>\<open>read\<close> \<^verbatim>\<open>True\<close>, and
  one skipped entry reported.
\<close>

theorem file_handling_stores_upload_unrepaired:
  "library (snd (file_handling (Some upload) (session (Raises FileNotFoundError)))) =
     JList [JDict no_read_fields, JInt 7, JDict (legacy_fields ''yes'')]
   \<and> ui (snd (file_handling (Some upload) (session (Raises FileNotFoundError))))
       = [St_success Library_imported]
   \<and> load_library (snd (file_handling (Some upload) (session (Raises FileNotFoundError)))) =
       Inr \<lparr>library = JList [JDict (book_fields False)], library_json = upload,
            ui = [St_success Library_imported, St_warning (Removed_invalid_entry 0),
                  St_warning (Removed_invalid_entry 1), St_toast (Loaded_valid_books 1)]\<rparr>
   \<and> library (snd (file_handling_shadowed (Some upload) (session (Raises FileNotFoundError)))) =
       JList [JDict (no_read_fields @ [(''read'', JBool False)]), JDict (book_fields True)]
   \<and> ui (snd (file_handling_shadowed (Some upload) (session (Raises FileNotFoundError)))) =
       [St_warning No_data_to_export, St_success (Imported_valid_books 2),
        St_warning (Skipped_invalid_entries 1)]"
  by (simp add: file_handling_def file_handling_shadowed_def load_library_def save_library_def
      report_def auto_fix_def upload_def session_def no_read_fields_def legacy_fields_def
      book_fields_def eval_defs)

subsection \<open>Export and import\<close>

lemma is_book_valid_entry: "is_book book \<Longrightarrow> valid_entry book"
  by (cases book) (auto simp: is_book_def required_keys_def key_in_def split: option.splits)

lemma is_book_convert: "is_book book \<Longrightarrow> convert_legacy_read book = book"
  by (cases book) (auto simp: is_book_def split: option.splits json.splits)

lemma is_book_dict: "is_book book \<Longrightarrow> isinstance_dict book"
  by (cases book) (simp_all add: is_book_def)

lemma is_book_auto_fix: "is_book (JDict kvs) \<Longrightarrow> auto_fix kvs = kvs"
  by (auto simp: is_book_def auto_fix_def key_in_def split: option.splits json.splits)

lemma is_book_repair:
  "is_book book \<Longrightarrow> (case book of JDict kvs \<Rightarrow> JDict (auto_fix kvs) | _ \<Rightarrow> book) = book"
  by (cases book) (simp_all add: is_book_auto_fix)

lemma load_entries_books:
  assumes "\<forall>book \<in> set books. is_book book"
  shows "map convert_legacy_read (filter valid_entry books) = books"
proof -
  from assms have "filter valid_entry books = books"
    by (simp add: filter_id_conv is_book_valid_entry)
  moreover from assms have "map convert_legacy_read books = books"
    by (simp add: map_idI is_book_convert)
  ultimately show ?thesis by simp
qed

text \<open>
  C7. For a library that is a list of books of the data model, the data behind the export
  button, uploaded again (in any session), is imported as a library equal to the original;
  the import saves it to \<^verbatim>\<open>library.json\<close>, and the load of the next run yields the same
  library once more.
\<close>

theorem export_import_roundtrip:
  assumes "library st = JList books" and "\<forall>book \<in> set books. is_book book"
  shows "\<exists>exported. fst (file_handling None st) = Some exported
           \<and> library (snd (file_handling (Some (Parsed exported)) st')) = library st
           \<and> library_json (snd (file_handling (Some (Parsed exported)) st'))
               = Parsed (library st)
           \<and> (\<exists>st''. load_library (snd (file_handling (Some (Parsed exported)) st')) = Inr st''
                 \<and> library st'' = library st)"
proof -
  let ?st2 = "snd (file_handling (Some (Parsed (library st))) st')"
  have f: "library_json ?st2 = Parsed (JList books)" and l: "library ?st2 = library st"
    using assms(1) by (simp_all add: file_handling_def save_library_def report_def)
  from load_library_parsed_list [OF f] assms
  have "\<exists>st''. load_library ?st2 = Inr st'' \<and> library st'' = library st"
    by (simp add: load_entries_books)
  with f l assms(1) show ?thesis
    by (simp add: file_handling_def)
qed

theorem export_import_roundtrip_witness:
  "library shelf = JList [dune, history, emma]
   \<and> is_book dune \<and> is_book history \<and> is_book emma
   \<and> (\<exists>exported. fst (file_handling None shelf) = Some exported
         \<and> library (snd (file_handling (Some (Parsed exported))
                          (session (Raises FileNotFoundError)))) = library shelf
         \<and> library_json (snd (file_handling (Some (Parsed exported))
                               (session (Raises FileNotFoundError))))
             = Parsed (library shelf)
         \<and> (\<exists>st''. load_library (snd (file_handling (Some (Parsed exported))
                                      (session (Raises FileNotFoundError)))) = Inr st''
               \<and> library st'' = library shelf))"
proof -
  have l: "library shelf = JList [dune, history, emma]" by (simp add: shelf_def)
  have b: "is_book dune" "is_book history" "is_book emma"
    by (simp_all add: is_book_def dune_def history_def emma_def)
  then have "\<forall>book \<in> set [dune, history, emma]. is_book book" by simp
  from export_import_roundtrip [OF l this, of "session (Raises FileNotFoundError)"] l b
  show ?thesis by blast
qed

text \<open>The shadowed definition has the same round trip, for a library that is not empty (it
  offers no export of an empty one).\<close>

lemma file_handling_shadowed_roundtrip:
  assumes "library st = JList books" and "\<forall>book \<in> set books. is_book book" and "books \<noteq> []"
  shows "\<exists>exported. fst (file_handling_shadowed None st) = Some exported
           \<and> library (snd (file_handling_shadowed (Some (Parsed exported)) st')) = library st"
proof -
  from assms(2) have d: "filter isinstance_dict books = books"
    by (simp add: filter_id_conv is_book_dict)
  from assms(2) have n: "filter (\<lambda>item. \<not> isinstance_dict item) books = []"
    by (simp add: filter_empty_conv is_book_dict)
  from assms(2)
  have "map (\<lambda>item. case item of JDict kvs \<Rightarrow> JDict (auto_fix kvs) | _ \<Rightarrow> item) books = books"
    by (simp add: map_idI is_book_repair)
  with d n assms(1,3) show ?thesis
    by (simp add: file_handling_shadowed_def import_entries_eq save_library_def report_def
        split: prod.splits)
qed

section \<open>Properties of \<^verbatim>\<open>add_book\<close>\<close>

text \<open>
  C5. A submitted form with an empty title or an empty author is rejected: the "required
  fields" error is shown, the library is what it was (no book is appended) and so is
  \<^verbatim>\<open>library.json\<close> (nothing is saved).
\<close>

theorem add_book_rejects_empty:
  assumes "form_submit_button f" and "title f = [] \<or> author f = []"
  shows "\<exists>st'. add_book f st = Inr st' \<and> library st' = library st
           \<and> library_json st' = library_json st
           \<and> ui st' = ui st @ [St_error Required_fields]"
  using assms by (auto simp: add_book_def report_def)

theorem add_book_rejects_empty_witness:
  "form_submit_button blank_title \<and> title blank_title = []
   \<and> add_book blank_title shelf = Inr (shelf\<lparr>ui := [St_error Required_fields]\<rparr>)"
proof -
  have b: "form_submit_button blank_title" and t: "title blank_title = []"
    by (simp_all add: blank_title_def)
  from t have "title blank_title = [] \<or> author blank_title = []" ..
  from add_book_rejects_empty [OF b this, of shelf] b t show ?thesis
    by (auto simp: shelf_def)
qed

text \<open>
  C8, as the claim states it, fails: \<^verbatim>\<open>load_library\<close> and the import of \<^verbatim>\<open>file_handling\<close>
  both bring into an empty library a book with an empty title, an empty author and the year
  0, which is outside \<open>[1, 2025]\<close>.
\<close>

theorem load_import_break_invariant:
  "load_library (session (Parsed (JList [nameless]))) =
     Inr \<lparr>library = JList [nameless], library_json = Parsed (JList [nameless]),
          ui = [St_toast (Loaded_valid_books 1)]\<rparr>
   \<and> library (snd (file_handling (Some (Parsed (JList [nameless])))
                    (session (Raises FileNotFoundError))))
       = JList [nameless]
   \<and> \<not> book_invariant 2025 nameless"
  by (simp add: load_library_def file_handling_def save_library_def report_def
      book_invariant_def nameless_def session_def eval_defs)

text \<open>
  C8, amended. \<^verbatim>\<open>add_book\<close> preserves the invariant: when the library is a list of books
  that all have a non-empty title and author and a year within \<open>[1, current_year]\<close>, and the
  year of the form is within the bounds of its widget, \<open>[1, current_year]\<close>, then
  \<^verbatim>\<open>add_book\<close> returns normally and every book of the resulting library satisfies the
  invariant.
\<close>

theorem add_book_preserves_invariant:
  assumes "library st = JList books"
    and "\<forall>book \<in> set books. book_invariant current_year book"
    and "1 \<le> year f" and "year f \<le> current_year"
  shows "\<exists>st' books'. add_book f st = Inr st' \<and> library st' = JList books'
           \<and> (\<forall>book \<in> set books'. book_invariant current_year book)"
proof (cases "form_submit_button f \<and> title f \<noteq> [] \<and> author f \<noteq> []")
  case True
  with assms(3,4) have "book_invariant current_year (new_book f)"
    by (simp add: book_invariant_def new_book_def)
  with True assms(1,2) show ?thesis
    by (simp add: add_book_def save_library_def report_def)
next
  case False
  with assms(1,2) show ?thesis
    by (auto simp: add_book_def report_def)
qed

theorem add_book_preserves_invariant_witness:
  "library two_books = JList [dune, emma]
   \<and> book_invariant 2025 dune \<and> book_invariant 2025 emma
   \<and> 1 \<le> year spqr_form \<and> year spqr_form \<le> 2025
   \<and> (\<exists>st'. add_book spqr_form two_books = Inr st'
          \<and> library st' = JList [dune, emma, history]
          \<and> library_json st' = Parsed (JList [dune, emma, history]))
   \<and> (\<exists>st' books'. add_book spqr_form two_books = Inr st' \<and> library st' = JList books'
          \<and> (\<forall>book \<in> set books'. book_invariant 2025 book))"
proof -
  have l: "library two_books = JList [dune, emma]" by (simp add: two_books_def)
  have b: "book_invariant 2025 dune" "book_invariant 2025 emma"
    by (simp_all add: book_invariant_def dune_def emma_def)
  then have i: "\<forall>book \<in> set [dune, emma]. book_invariant 2025 book" by simp
  have y: "1 \<le> year spqr_form" "year spqr_form \<le> 2025" by (simp_all add: spqr_form_def)
  have e: "\<exists>st'. add_book spqr_form two_books = Inr st'
          \<and> library st' = JList [dune, emma, history]
          \<and> library_json st' = Parsed (JList [dune, emma, history])"
    by (simp add: add_book_def new_book_def save_library_def report_def spqr_form_def
        two_books_def history_def)
  from add_book_preserves_invariant [OF l i y] l b y e show ?thesis by blast
qed

section \<open>Properties of \<^verbatim>\<open>search_books\<close>\<close>











text \<open>With a lowering that maps U+00C9 to U+00E9, the search by title for the term that
  starts with U+00E9 finds the book whose title starts with U+00C9.\<close>

lemma search_books_accented:
  "search_books lower_latin (\<lambda>v. []) Title
     [CHR 0xC3, CHR 0xA9, CHR ''c'', CHR ''o'', CHR ''l'', CHR ''e'']
     \<lparr>library = JList [dune, ecole], library_json = Parsed (JList [dune, ecole]), ui = []\<rparr>
   = Inr (Some [ecole],
          \<lparr>library = JList [dune, ecole], library_json = Parsed (JList [dune, ecole]),
           ui = [St_success (Found_results 1)]\<rparr>)"
  by (simp add: search_books_def dune_def ecole_def eval_defs report_def)

end
